theory Spec2Isabelle
  imports
    Complex_Main
    "HOL-Library.AList"
    "HOL-Library.Sublist"
    "HOL-Library.List_Lexorder"
    "HOL-Library.Char_ord"
begin

section \<open>Python values\<close>

text \<open>
  The session of \<^verbatim>\<open>panasoniceolia/session.py\<close> moves Python values around: documents
  decoded from JSON, keyword arguments of \<^verbatim>\<open>set_device\<close>, members of the enumerations
  of the module \<^verbatim>\<open>constants\<close>. One datatype holds them all. A dictionary is an
  association list in insertion order, updated with \<open>AList.update\<close> (an existing key
  keeps its place, a new key goes last), which is what a Python \<^verbatim>\<open>dict\<close> does.
  A finite float is the rational number it denotes; nan and the infinities are left out.
  A member of an enumeration carries its class, its name and its \<^verbatim>\<open>.value\<close>.
\<close>

datatype enum_cls = Power | OperationMode | FanSpeed | AirSwingUD | OtherEnum string

datatype pyval =
    PNone
  | PBool bool
  | PInt int
  | PFloat rat
  | PStr string
  | PList "pyval list"
  | PDict "(string \<times> pyval) list"
  | PEnum enum_cls string pyval

type_synonym dict = "(string \<times> pyval) list"

text \<open>
  Python's \<^verbatim>\<open>==\<close> relates values of different types: \<^verbatim>\<open>True == 1 == 1.0\<close>, lists
  compare element by element, dictionaries regardless of insertion order, members of a
  plain \<^verbatim>\<open>Enum\<close> by identity. \<open>canon\<close> maps each value to a representative of
  its equality class.
\<close>

primrec canon :: "pyval \<Rightarrow> pyval" where
  "canon PNone = PNone"
| "canon (PBool b) = PInt (if b then 1 else 0)"
| "canon (PInt i) = PInt i"
| "canon (PFloat r) = (if of_int \<lfloor>r\<rfloor> = r then PInt \<lfloor>r\<rfloor> else PFloat r)"
| "canon (PStr s) = PStr s"
| "canon (PList xs) = PList (map canon xs)"
| "canon (PDict kvs) = PDict (sort_key fst (map (map_prod id canon) kvs))"
| "canon (PEnum c n v) = PEnum c n v"

definition py_eq :: "pyval \<Rightarrow> pyval \<Rightarrow> bool" where
  "py_eq a b = (canon a = canon b)"

definition isinstance :: "pyval \<Rightarrow> enum_cls \<Rightarrow> bool" where
  "isinstance v cls = (case v of PEnum c n x \<Rightarrow> c = cls | _ \<Rightarrow> False)"

section \<open>Exceptions\<close>

text \<open>
  What a call of the \<^verbatim>\<open>requests\<close> library raises: a \<^verbatim>\<open>RequestException\<close> (the
  string names the subclass: ConnectionError, Timeout, ...) or anything else.
\<close>

datatype exn = RequestException string | OtherException string

text \<open>
  The exceptions an operation of the session ends with. \<open>Error\<close>, \<open>RequestError\<close>,
  \<open>LoginError\<close> and \<open>ResponseError\<close> are the classes of the module;
  \<open>ResponseError\<close> holds its message, \<^verbatim>\<open>status_code\<close> and \<^verbatim>\<open>text\<close>. The rest are
  Python's own: \<open>JSONDecodeError\<close> (raised by \<^verbatim>\<open>json.loads\<close> on the document given),
  \<open>KeyError\<close>, \<open>TypeError\<close>, \<open>AttributeError\<close>, the \<open>ValueError\<close> of an
  enumeration called with a value none of its members has, and an exception of the
  transport that no handler catches.
\<close>

datatype error =
    Error exn
  | RequestError exn
  | LoginError exn
  | ResponseError string int pyval
  | JSONDecodeError string
  | KeyError string
  | TypeError
  | AttributeError
  | ValueError enum_cls pyval
  | Uncaught exn

definition and_then :: "error + 'a \<Rightarrow> ('a \<Rightarrow> error + 'b) \<Rightarrow> error + 'b" where
  "and_then m f = (case m of Inl e \<Rightarrow> Inl e | Inr x \<Rightarrow> f x)"

section \<open>Operations on values\<close>

text \<open>\<^verbatim>\<open>v[key]\<close> for a string key: only a dictionary can be indexed by a string.\<close>

definition py_getitem :: "pyval \<Rightarrow> string \<Rightarrow> error + pyval" where
  "py_getitem v key =
     (case v of
        PDict kvs \<Rightarrow> (case map_of kvs key of None \<Rightarrow> Inl (KeyError key) | Some x \<Rightarrow> Inr x)
      | _ \<Rightarrow> Inl TypeError)"

text \<open>
  \<^verbatim>\<open>key in v\<close> for a string key: a key of a dictionary, an element of a list, a
  substring of a string; the other values are not containers.
\<close>

definition py_in :: "string \<Rightarrow> pyval \<Rightarrow> error + bool" where
  "py_in key v =
     (case v of
        PDict kvs \<Rightarrow> Inr (map_of kvs key \<noteq> None)
      | PList xs \<Rightarrow> Inr (list_ex (\<lambda>x. py_eq x (PStr key)) xs)
      | PStr s \<Rightarrow> Inr (sublist key s)
      | _ \<Rightarrow> Inl TypeError)"

text \<open>\<^verbatim>\<open>for x in v\<close>: the elements of a list, the keys of a dictionary, the characters of a string.\<close>

definition py_iter :: "pyval \<Rightarrow> error + pyval list" where
  "py_iter v =
     (case v of
        PList xs \<Rightarrow> Inr xs
      | PDict kvs \<Rightarrow> Inr (map (\<lambda>kv. PStr (fst kv)) kvs)
      | PStr s \<Rightarrow> Inr (map (\<lambda>c. PStr [c]) s)
      | _ \<Rightarrow> Inl TypeError)"

text \<open>\<^verbatim>\<open>v.append(x)\<close>: \<^verbatim>\<open>None\<close> and the other values have no such method.\<close>

definition py_append :: "pyval \<Rightarrow> pyval \<Rightarrow> error + pyval" where
  "py_append v x = (case v of PList xs \<Rightarrow> Inr (PList (xs @ [x])) | _ \<Rightarrow> Inl AttributeError)"

text \<open>\<^verbatim>\<open>'{0}'.format(n)\<close> for an integer: its decimal numeral.\<close>

fun str_nat :: "nat \<Rightarrow> string" where
  "str_nat n =
     (if n < 10 then [''0123456789'' ! n]
      else str_nat (n div 10) @ [''0123456789'' ! (n mod 10)])"

declare str_nat.simps [simp del]

definition str_int :: "int \<Rightarrow> string" where
  "str_int i = (if i < 0 then CHR ''-'' # str_nat (nat (- i)) else str_nat (nat i))"

section \<open>The enumerations of the module constants\<close>

text \<open>
  Modelled from the spec: the module \<^verbatim>\<open>constants\<close> (the enumerations \<^verbatim>\<open>Power\<close>,
  \<^verbatim>\<open>OperationMode\<close>, \<^verbatim>\<open>FanSpeed\<close> and \<^verbatim>\<open>AirSwingUD\<close>) is not among the sources.
  The members of each class, as (name, wire code) pairs in definition order, are a
  parameter \<open>C\<close> of the model. Calling a class with a value, \<^verbatim>\<open>constants.Power(x)\<close>,
  looks the value up against the codes of the members: a member of the class is returned
  as it is, otherwise the member whose code equals the value, and with no such member the
  call fails (the spec's "unrecognized code", Python's \<^verbatim>\<open>ValueError\<close>).
\<close>

type_synonym constants = "enum_cls \<Rightarrow> (string \<times> pyval) list"

definition enum_call :: "constants \<Rightarrow> enum_cls \<Rightarrow> pyval \<Rightarrow> error + pyval" where
  "enum_call C cls x =
     (if isinstance x cls then Inr x
      else (case find (\<lambda>m. py_eq (snd m) x) (C cls) of
              Some m \<Rightarrow> Inr (PEnum cls (fst m) (snd m))
            | None \<Rightarrow> Inl (ValueError cls x)))"

section \<open>The transport\<close>

text \<open>
  Each operation makes one call of \<^verbatim>\<open>requests\<close>. The endpoints come from the module
  \<^verbatim>\<open>urls\<close>, which is not among the sources, so a request names its endpoint
  symbolically. The transport is a parameter: a function from the request to what the
  call does, raising or answering with a status code and a body. The headers (a clock
  reading) and the diagnostic output on stdout take no part in any result and are left
  out. \<^verbatim>\<open>json.loads\<close> belongs to Python's standard library and is a parameter as well:
  \<open>None\<close> stands for the \<^verbatim>\<open>JSONDecodeError\<close> it raises on a body that is not a JSON
  document.
\<close>

datatype http_method = GET | POST | PUT

datatype endpoint = LoginUrl | GetDevicesUrl | StatusUrl pyval

record request =
  meth :: http_method
  url :: endpoint
  json :: "pyval option"

record response =
  status_code :: int
  resp_text :: string

datatype outcome = Raises exn | Answered response

type_synonym transport = "request \<Rightarrow> outcome"

type_synonym loads = "string \<Rightarrow> pyval option"

section \<open>The module\<close>

text \<open>
  \<^verbatim>\<open>ResponseError(status_code, text)\<close>: the constructor formats the message, keeps the
  status code and calls \<^verbatim>\<open>json.loads(text)\<close> with no handler around it. The result is
  the exception that \<^verbatim>\<open>raise ResponseError(status_code, text)\<close> ends with.
\<close>

definition raise_ResponseError :: "loads \<Rightarrow> int \<Rightarrow> string \<Rightarrow> error" where
  "raise_ResponseError loads code txt =
     (case loads txt of
        None \<Rightarrow> JSONDecodeError txt
      | Some j \<Rightarrow>
          ResponseError (''Invalid response, status code: '' @ str_int code @ '' - Data: '' @ txt)
            code j)"

definition validate_response :: "loads \<Rightarrow> response \<Rightarrow> error + unit" where
  "validate_response loads r =
     (if 2 = status_code r div 100 then Inr ()
      else Inl (raise_ResponseError loads (status_code r) (resp_text r)))"

text \<open>
  The handler \<^verbatim>\<open>except requests.exceptions.RequestException as ex: raise W(ex)\<close>:
  it wraps a \<^verbatim>\<open>RequestException\<close> and lets everything else through.
\<close>

definition wrap_exn :: "(exn \<Rightarrow> error) \<Rightarrow> exn \<Rightarrow> error" where
  "wrap_exn W ex = (case ex of RequestException n \<Rightarrow> W ex | OtherException n \<Rightarrow> Uncaught ex)"

record session =
  username :: string
  password :: string
  devices :: pyval

subsection \<open>login\<close>

definition login_payload :: "session \<Rightarrow> pyval" where
  "login_payload s =
     PDict [(''idpw'', PDict [(''id'', PStr (username s)), (''next_easy'', PBool True),
                               (''pass'', PStr (password s)), (''terminal_type'', PInt 3)])]"

definition login :: "loads \<Rightarrow> transport \<Rightarrow> session \<Rightarrow> error + unit" where
  "login loads send s =
     (case send \<lparr>meth = POST, url = LoginUrl, json = Some (login_payload s)\<rparr> of
        Raises ex \<Rightarrow> Inl (wrap_exn LoginError ex)
      | Answered r \<Rightarrow>
          if 2 \<noteq> status_code r div 100
          then Inl (raise_ResponseError loads (status_code r) (resp_text r))
          else validate_response loads r)"

subsection \<open>get\_devices\<close>

definition device_summary :: "pyval \<Rightarrow> error + pyval" where
  "device_summary device =
     and_then (py_getitem device ''appliance_id'') (\<lambda>a.
     and_then (py_getitem device ''nickname'') (\<lambda>n.
     and_then (py_getitem device ''product_code'') (\<lambda>m.
       Inr (PDict [(''id'', a), (''name'', n), (''model'', m)]))))"

fun get_devices_loop :: "session \<Rightarrow> pyval list \<Rightarrow> session \<times> (error + pyval)" where
  "get_devices_loop s [] = (s, Inr (devices s))"
| "get_devices_loop s (device # rest) =
     (case device_summary device of
        Inl e \<Rightarrow> (s, Inl e)
      | Inr d \<Rightarrow>
          (case py_append (devices s) d of
             Inl e \<Rightarrow> (s, Inl e)
           | Inr ds \<Rightarrow> get_devices_loop (s\<lparr>devices := ds\<rparr>) rest))"

definition get_devices :: "loads \<Rightarrow> transport \<Rightarrow> session \<Rightarrow> session \<times> (error + pyval)" where
  "get_devices loads send s0 =
     (let s = s0\<lparr>devices := PList []\<rparr> in
      case send \<lparr>meth = GET, url = GetDevicesUrl, json = None\<rparr> of
        Raises ex \<Rightarrow> (s, Inl (wrap_exn Error ex))
      | Answered r \<Rightarrow>
          if 2 \<noteq> status_code r div 100
          then (s, Inl (raise_ResponseError loads (status_code r) (resp_text r)))
          else (case validate_response loads r of
                  Inl e \<Rightarrow> (s, Inl e)
                | Inr u \<Rightarrow>
                    (case loads (resp_text r) of
                       None \<Rightarrow> (s, Inl (JSONDecodeError (resp_text r)))
                     | Some doc \<Rightarrow>
                         (case py_getitem doc ''ac_list'' of
                            Inl e \<Rightarrow> (s, Inl e)
                          | Inr acl \<Rightarrow>
                              (case py_iter acl of
                                 Inl e \<Rightarrow> (s, Inl e)
                               | Inr entries \<Rightarrow> get_devices_loop s entries)))))"

subsection \<open>\_read\_parameters\<close>

definition convert :: "(string \<times> string) list" where
  "convert = [(''inside_temp'', ''temperatureInside''),
              (''outside_temp'', ''temperatureOutside''),
              (''temperature'', ''temperature'')]"

fun convert_loop :: "pyval \<Rightarrow> (string \<times> string) list \<Rightarrow> dict \<Rightarrow> error + dict" where
  "convert_loop parameters [] val = Inr val"
| "convert_loop parameters (kd # rest) val =
     and_then (py_in (fst kd) parameters) (\<lambda>present.
       if present
       then and_then (py_getitem parameters (fst kd)) (\<lambda>v.
              convert_loop parameters rest (AList.update (snd kd) v val))
       else convert_loop parameters rest val)"

definition read_enum ::
  "constants \<Rightarrow> enum_cls \<Rightarrow> string \<Rightarrow> string \<Rightarrow> pyval \<Rightarrow> dict \<Rightarrow> error + dict" where
  "read_enum C cls key dkey parameters val =
     and_then (py_in key parameters) (\<lambda>present.
       if present
       then and_then (py_getitem parameters key) (\<lambda>code.
            and_then (enum_call C cls code) (\<lambda>m.
              Inr (AList.update dkey m val)))
       else Inr val)"

definition read_parameters :: "constants \<Rightarrow> pyval \<Rightarrow> error + dict" where
  "read_parameters C parameters =
     and_then (convert_loop parameters convert []) (\<lambda>v0.
     and_then (read_enum C Power ''operation_status'' ''power'' parameters v0) (\<lambda>v1.
     and_then (read_enum C OperationMode ''operation_mode'' ''mode'' parameters v1) (\<lambda>v2.
     and_then (read_enum C FanSpeed ''wind_volume'' ''fanSpeed'' parameters v2) (\<lambda>v3.
       read_enum C AirSwingUD ''wind_direction'' ''airSwingVertical'' parameters v3))))"

subsection \<open>dump and get\_device\<close>

definition dump :: "loads \<Rightarrow> transport \<Rightarrow> pyval \<Rightarrow> error + pyval" where
  "dump loads send dev =
     (case send \<lparr>meth = GET, url = StatusUrl dev, json = None\<rparr> of
        Raises ex \<Rightarrow> Inl (wrap_exn RequestError ex)
      | Answered r \<Rightarrow>
          if status_code r \<noteq> 200
          then Inl (raise_ResponseError loads (status_code r) (resp_text r))
          else and_then (validate_response loads r) (\<lambda>u.
                 case loads (resp_text r) of
                   None \<Rightarrow> Inl (JSONDecodeError (resp_text r))
                 | Some doc \<Rightarrow> Inr doc))"

definition get_device :: "constants \<Rightarrow> loads \<Rightarrow> transport \<Rightarrow> pyval \<Rightarrow> error + pyval" where
  "get_device C loads send dev =
     (case send \<lparr>meth = GET, url = StatusUrl dev, json = None\<rparr> of
        Raises ex \<Rightarrow> Inl (wrap_exn RequestError ex)
      | Answered r \<Rightarrow>
          if status_code r \<noteq> 200
          then Inl (raise_ResponseError loads (status_code r) (resp_text r))
          else and_then (validate_response loads r) (\<lambda>u.
                 case loads (resp_text r) of
                   None \<Rightarrow> Inl (JSONDecodeError (resp_text r))
                 | Some doc \<Rightarrow>
                     and_then (read_parameters C doc) (\<lambda>ps.
                       Inr (PDict [(''id'', dev), (''parameters'', PDict ps)]))))"

subsection \<open>set\_device\<close>

text \<open>
  One guarded assignment of the loop over \<^verbatim>\<open>kwargs.items()\<close>:
  \<^verbatim>\<open>if key == name and isinstance(value, cls): payload[wire] = value.value\<close>.
\<close>

definition put_enum :: "string \<Rightarrow> enum_cls \<Rightarrow> string \<Rightarrow> string \<Rightarrow> pyval \<Rightarrow> dict \<Rightarrow> dict" where
  "put_enum name cls wire key val payload =
     (case val of
        PEnum c n v \<Rightarrow> if key = name \<and> c = cls then AList.update wire v payload else payload
      | _ \<Rightarrow> payload)"

definition payload_item :: "string \<times> pyval \<Rightarrow> dict \<Rightarrow> dict" where
  "payload_item kv payload =
     (let key = fst kv; val = snd kv;
          p1 = put_enum ''power'' Power ''operation_status'' key val payload;
          p2 = (if key = ''temperature'' then AList.update ''temperature'' val p1 else p1);
          p3 = put_enum ''mode'' OperationMode ''operation_mode'' key val p2;
          p4 = put_enum ''fanSpeed'' FanSpeed ''wind_volume'' key val p3
      in put_enum ''airSwingVertical'' AirSwingUD ''wind_direction'' key val p4)"

definition set_device_payload :: "dict \<Rightarrow> dict" where
  "set_device_payload kwargs =
     AList.update ''timer_value'' (PInt 0)
       (AList.update ''silence_control'' (PBool False)
          (AList.update ''nanoex'' (PBool True)
             (AList.update ''airquality'' (PBool False)
                (fold payload_item kwargs []))))"

definition set_device :: "loads \<Rightarrow> transport \<Rightarrow> pyval \<Rightarrow> dict \<Rightarrow> error + pyval" where
  "set_device loads send dev kwargs =
     (case send \<lparr>meth = PUT, url = StatusUrl dev,
                 json = Some (PDict (set_device_payload kwargs))\<rparr> of
        Raises ex \<Rightarrow> Inl (wrap_exn RequestError ex)
      | Answered r \<Rightarrow>
          if 2 \<noteq> status_code r div 100
          then Inl (raise_ResponseError loads (status_code r) (resp_text r))
          else and_then (validate_response loads r) (\<lambda>u.
                 case loads (resp_text r) of
                   None \<Rightarrow> Inl (JSONDecodeError (resp_text r))
                 | Some doc \<Rightarrow> Inr (PBool True)))"

section \<open>Tables of the specification and example environments\<close>

text \<open>
  The reverse name mapping of the encode direction, as the specification lists it: the
  caller's setting, the enumeration its value must belong to, and the wire key.
\<close>

definition enum_settings :: "(string \<times> enum_cls \<times> string) list" where
  "enum_settings =
     [(''power'', Power, ''operation_status''),
      (''mode'', OperationMode, ''operation_mode''),
      (''fanSpeed'', FanSpeed, ''wind_volume''),
      (''airSwingVertical'', AirSwingUD, ''wind_direction'')]"

text \<open>The translation table of the decode direction, wire key to domain key.\<close>

definition translation :: "(string \<times> string) list" where
  "translation =
     [(''inside_temp'', ''temperatureInside''),
      (''outside_temp'', ''temperatureOutside''),
      (''temperature'', ''temperature''),
      (''operation_status'', ''power''),
      (''operation_mode'', ''mode''),
      (''wind_volume'', ''fanSpeed''),
      (''wind_direction'', ''airSwingVertical'')]"

text \<open>
  What one keyword argument adds to the payload, if anything: the five guarded
  assignments of the loop body exclude each other, since each tests the key against a
  different name.
\<close>

definition item_entry :: "string \<times> pyval \<Rightarrow> (string \<times> pyval) option" where
  "item_entry kv =
     (if fst kv = ''temperature'' then Some (''temperature'', snd kv)
      else (case snd kv of
              PEnum c n v \<Rightarrow>
                (case find (\<lambda>e. fst e = fst kv \<and> fst (snd e) = c) enum_settings of
                   Some e \<Rightarrow> Some (snd (snd e), v)
                 | None \<Rightarrow> None)
            | _ \<Rightarrow> None))"

text \<open>
  A member table as Python's \<^verbatim>\<open>Enum\<close> builds it: the codes of the members are
  pairwise different under \<^verbatim>\<open>==\<close> (a repeated code would make an alias, not a
  member), and no code is itself a member of the class.
\<close>

definition enum_ok :: "enum_cls \<Rightarrow> (string \<times> pyval) list \<Rightarrow> bool" where
  "enum_ok cls ms =
     (distinct (map (\<lambda>m. canon (snd m)) ms) \<and> list_all (\<lambda>m. \<not> isinstance (snd m) cls) ms)"

text \<open>
  Environments for the worked examples. The member names follow the data model of the
  specification; the wire codes are examples. \<open>always\<close> is a transport that does the
  same for every request.
\<close>

definition constants_example :: constants where
  "constants_example cls =
     (case cls of
        Power \<Rightarrow> [(''OFF'', PBool False), (''ON'', PBool True)]
      | OperationMode \<Rightarrow>
          [(''AUTO'', PStr ''Auto''), (''COOL'', PStr ''Cooling''), (''HEAT'', PStr ''Heating''),
           (''DRY'', PStr ''Dry''), (''FAN'', PStr ''Fan'')]
      | FanSpeed \<Rightarrow> [(''Auto'', PInt 0), (''Low'', PInt 2), (''High'', PInt 4)]
      | AirSwingUD \<Rightarrow> [(''Auto'', PInt 0), (''Top'', PInt 1), (''Bottom'', PInt 5)]
      | OtherEnum n \<Rightarrow> [])"

definition always :: "outcome \<Rightarrow> transport" where
  "always out req = out"

section \<open>The payload of set\_device\<close>

lemma payload_item_entry:
  "payload_item kv p = (case item_entry kv of None \<Rightarrow> p | Some e \<Rightarrow> AList.update (fst e) (snd e) p)"
  by (cases kv; cases "snd kv")
     (auto simp: payload_item_def put_enum_def item_entry_def enum_settings_def Let_def)

lemma item_entry_name:
  "item_entry kv = Some (w, v) \<Longrightarrow>
     fst kv = (if w = ''temperature'' then ''temperature'' else
               if w = ''operation_status'' then ''power'' else
               if w = ''operation_mode'' then ''mode'' else
               if w = ''wind_volume'' then ''fanSpeed'' else ''airSwingVertical'')"
  by (cases "snd kv")
     (auto simp: item_entry_def enum_settings_def split: if_splits)

lemma fold_payload_item_other:
  "(\<forall>kv\<in>set kwargs. \<forall>v. item_entry kv \<noteq> Some (w, v)) \<Longrightarrow>
     map_of (fold payload_item kwargs p) w = map_of p w"
proof (induction kwargs arbitrary: p)
  case Nil
  then show ?case by simp
next
  case (Cons kv kwargs)
  then show ?case
    by (cases "item_entry kv") (auto simp: payload_item_entry update_conv')
qed

lemma fold_payload_item_entry:
  "distinct (map fst kwargs) \<Longrightarrow> kv \<in> set kwargs \<Longrightarrow> item_entry kv = Some (w, v) \<Longrightarrow>
     map_of (fold payload_item kwargs p) w = Some v"
proof (induction kwargs arbitrary: p)
  case Nil
  then show ?case by simp
next
  case (Cons kv' kwargs)
  show ?case
  proof (cases "kv \<in> set kwargs")
    case True
    with Cons show ?thesis by simp
  next
    case False
    with Cons.prems have eq: "kv' = kv" and notin: "fst kv \<notin> fst ` set kwargs"
      by auto
    have "\<forall>x\<in>set kwargs. \<forall>u. item_entry x \<noteq> Some (w, u)"
    proof (intro ballI allI notI)
      fix x u
      assume "x \<in> set kwargs" and "item_entry x = Some (w, u)"
      with item_entry_name [of x w u] item_entry_name [OF Cons.prems(3)] notin
      show False by (metis imageI)
    qed
    then have "map_of (fold payload_item kwargs (payload_item kv p)) w = map_of (payload_item kv p) w"
      by (rule fold_payload_item_other)
    moreover from Cons.prems(3) have "payload_item kv p = AList.update w v p"
      by (simp add: payload_item_entry)
    ultimately show ?thesis
      using eq by (simp add: update_conv')
  qed
qed

lemma item_entry_enum:
  "(name, cls, wire) \<in> set enum_settings \<Longrightarrow>
     item_entry (name, val) =
       (case val of PEnum c n v \<Rightarrow> if c = cls then Some (wire, v) else None | _ \<Rightarrow> None)"
  by (auto simp: enum_settings_def item_entry_def split: pyval.splits)

lemma item_entry_wire:
  "(name, cls, wire) \<in> set enum_settings \<Longrightarrow> item_entry kv = Some (wire, v) \<Longrightarrow> fst kv = name"
  by (drule item_entry_name) (auto simp: enum_settings_def)

lemma item_entry_temperature:
  "item_entry kv = Some (''temperature'', v) \<longleftrightarrow> fst kv = ''temperature'' \<and> snd kv = v"
  by (cases "snd kv") (auto simp: item_entry_def enum_settings_def split: if_splits)

lemma fold_payload_item_enum:
  assumes d: "distinct (map fst kwargs)" and e: "(name, cls, wire) \<in> set enum_settings"
  shows "map_of (fold payload_item kwargs []) wire =
           (case map_of kwargs name of
              Some (PEnum c n v) \<Rightarrow> if c = cls then Some v else None
            | _ \<Rightarrow> None)"
proof (cases "map_of kwargs name")
  case None
  then have "\<forall>kv\<in>set kwargs. fst kv \<noteq> name"
    by (force simp: map_of_eq_None_iff)
  with e have "\<forall>kv\<in>set kwargs. \<forall>v. item_entry kv \<noteq> Some (wire, v)"
    by (blast dest: item_entry_wire)
  then show ?thesis
    using None by (simp add: fold_payload_item_other)
next
  case (Some val)
  then have mem: "(name, val) \<in> set kwargs"
    by (rule map_of_SomeD)
  show ?thesis
  proof (cases "item_entry (name, val)")
    case yes: (Some wv)
    with e have wv: "wv = (wire, snd wv)"
      by (auto simp: item_entry_enum split: pyval.splits if_splits)
    with yes have "item_entry (name, val) = Some (wire, snd wv)"
      by simp
    with d mem have "map_of (fold payload_item kwargs []) wire = Some (snd wv)"
      by (rule fold_payload_item_entry)
    with e yes Some show ?thesis
      by (auto simp: item_entry_enum split: pyval.splits if_splits)
  next
    case no: None
    have "\<forall>kv\<in>set kwargs. \<forall>v. item_entry kv \<noteq> Some (wire, v)"
    proof (intro ballI allI notI)
      fix kv v
      assume kv: "kv \<in> set kwargs" and c: "item_entry kv = Some (wire, v)"
      with e have "fst kv = name"
        by (blast dest: item_entry_wire)
      with kv d Some have "kv = (name, val)"
        by (metis map_of_is_SomeI option.inject prod.collapse)
      with c no show False by simp
    qed
    then have "map_of (fold payload_item kwargs []) wire = None"
      by (simp add: fold_payload_item_other)
    with e no Some show ?thesis
      by (auto simp: item_entry_enum split: pyval.splits if_splits)
  qed
qed

lemma fold_payload_item_temperature:
  assumes d: "distinct (map fst kwargs)"
  shows "map_of (fold payload_item kwargs []) ''temperature'' = map_of kwargs ''temperature''"
proof (cases "map_of kwargs ''temperature''")
  case None
  then have "\<forall>kv\<in>set kwargs. fst kv \<noteq> ''temperature''"
    by (force simp: map_of_eq_None_iff)
  then have "\<forall>kv\<in>set kwargs. \<forall>v. item_entry kv \<noteq> Some (''temperature'', v)"
    by (simp add: item_entry_temperature)
  then show ?thesis
    using None by (simp add: fold_payload_item_other)
next
  case (Some val)
  then have "(''temperature'', val) \<in> set kwargs"
    by (rule map_of_SomeD)
  moreover have "item_entry (''temperature'', val) = Some (''temperature'', val)"
    by (simp add: item_entry_temperature)
  ultimately show ?thesis
    using d Some by (simp add: fold_payload_item_entry)
qed

lemma set_device_payload_lookup:
  "w \<notin> {''airquality'', ''nanoex'', ''silence_control'', ''timer_value''} \<Longrightarrow>
     map_of (set_device_payload kwargs) w = map_of (fold payload_item kwargs []) w"
  by (simp add: set_device_payload_def update_conv')

lemma enum_settings_wire:
  "(name, cls, wire) \<in> set enum_settings \<Longrightarrow>
     wire \<notin> {''airquality'', ''nanoex'', ''silence_control'', ''timer_value''}"
  by (auto simp: enum_settings_def)

text \<open>
  Claim C2, as amended. The keyword arguments of a call have pairwise different names.
  For each of the four enumeration-backed settings (power, mode, fanSpeed,
  airSwingVertical) the wire key is in the payload if and only if the setting was
  supplied with a member of the expected enumeration, and then it holds the member's
  wire code; a value of any other type is left out. The temperature is not checked: the
  payload holds under \<^verbatim>\<open>temperature\<close> exactly what the caller supplied, whatever its
  type, and nothing when the caller supplied none. Building the payload is a total
  function: no error is raised.
\<close>

theorem set_device_payload_settings:
  assumes "distinct (map fst kwargs)"
  shows "(\<forall>(name, cls, wire) \<in> set enum_settings.
            (wire \<in> fst ` set (set_device_payload kwargs) \<longleftrightarrow>
               (\<exists>v. map_of kwargs name = Some v \<and> isinstance v cls)) \<and>
            (\<forall>n c. map_of kwargs name = Some (PEnum cls n c) \<longrightarrow>
               map_of (set_device_payload kwargs) wire = Some c)) \<and>
         map_of (set_device_payload kwargs) ''temperature'' = map_of kwargs ''temperature''"
proof (intro conjI ballI)
  fix e
  assume e: "e \<in> set enum_settings"
  obtain name cls wire where [simp]: "e = (name, cls, wire)"
    by (cases e) auto
  have look: "map_of (set_device_payload kwargs) wire =
      (case map_of kwargs name of
         Some (PEnum c n v) \<Rightarrow> if c = cls then Some v else None
       | _ \<Rightarrow> None)"
    using e assms by (simp add: set_device_payload_lookup [OF enum_settings_wire] fold_payload_item_enum)
  have "wire \<in> fst ` set (set_device_payload kwargs) \<longleftrightarrow> map_of (set_device_payload kwargs) wire \<noteq> None"
    by (simp add: map_of_eq_None_iff)
  also have "\<dots> \<longleftrightarrow> (\<exists>v. map_of kwargs name = Some v \<and> isinstance v cls)"
    unfolding look by (auto simp: isinstance_def split: option.splits pyval.splits)
  finally have a: "wire \<in> fst ` set (set_device_payload kwargs) \<longleftrightarrow>
      (\<exists>v. map_of kwargs name = Some v \<and> isinstance v cls)" .
  have b: "\<forall>n c. map_of kwargs name = Some (PEnum cls n c) \<longrightarrow>
      map_of (set_device_payload kwargs) wire = Some c"
    unfolding look by simp
  from a b show "case e of (name, cls, wire) \<Rightarrow>
      (wire \<in> fst ` set (set_device_payload kwargs) \<longleftrightarrow>
         (\<exists>v. map_of kwargs name = Some v \<and> isinstance v cls)) \<and>
      (\<forall>n c. map_of kwargs name = Some (PEnum cls n c) \<longrightarrow>
         map_of (set_device_payload kwargs) wire = Some c)"
    by simp
next
  show "map_of (set_device_payload kwargs) ''temperature'' = map_of kwargs ''temperature''"
    using assms by (simp add: set_device_payload_lookup fold_payload_item_temperature)
qed

text \<open>
  A call with a well-typed power, a mode of the wrong type and a temperature that is
  not a number: the power is encoded, the mode is dropped, the temperature goes through.
\<close>

theorem set_device_payload_settings_witness:
  "distinct (map fst [(''power'', PEnum Power ''ON'' (PBool True)), (''mode'', PStr ''Cooling''),
                      (''temperature'', PStr ''hot'')]) \<and>
   map_of (set_device_payload [(''power'', PEnum Power ''ON'' (PBool True)), (''mode'', PStr ''Cooling''),
                      (''temperature'', PStr ''hot'')]) ''operation_status'' = Some (PBool True) \<and>
   ''operation_mode'' \<notin> fst ` set (set_device_payload [(''power'', PEnum Power ''ON'' (PBool True)),
                      (''mode'', PStr ''Cooling''), (''temperature'', PStr ''hot'')]) \<and>
   map_of (set_device_payload [(''power'', PEnum Power ''ON'' (PBool True)), (''mode'', PStr ''Cooling''),
                      (''temperature'', PStr ''hot'')]) ''temperature'' = Some (PStr ''hot'')"
proof -
  let ?kw = "[(''power'', PEnum Power ''ON'' (PBool True)), (''mode'', PStr ''Cooling''),
              (''temperature'', PStr ''hot'')]"
  have d: "distinct (map fst ?kw)"
    by simp
  from set_device_payload_settings [OF d] show ?thesis
    by (simp add: enum_settings_def isinstance_def)
qed

text \<open>
  Claim C2 as stated fails for the temperature: a string supplied as temperature is of
  the wrong type and still enters the payload.
\<close>

theorem temperature_wrong_type_counterexample:
  "map_of (set_device_payload [(''temperature'', PStr ''hot'')]) ''temperature'' = Some (PStr ''hot'')"
  by (simp add: set_device_payload_def payload_item_def put_enum_def)

text \<open>
  Claim C5. Whatever the caller supplies, the payload holds the four fixed fields with
  their constants: airquality false, nanoex true, silence\_control false, timer\_value 0.
  For \<^verbatim>\<open>set_device(id, power=ON, temperature=23)\<close>, with \<^verbatim>\<open>ON\<close> any member of
  \<^verbatim>\<open>Power\<close>, the payload is exactly operation\_status, temperature and the four fixed
  fields.
\<close>

theorem set_device_payload_fixed_fields:
  "map_of (set_device_payload kwargs) ''airquality'' = Some (PBool False) \<and>
   map_of (set_device_payload kwargs) ''nanoex'' = Some (PBool True) \<and>
   map_of (set_device_payload kwargs) ''silence_control'' = Some (PBool False) \<and>
   map_of (set_device_payload kwargs) ''timer_value'' = Some (PInt 0) \<and>
   set_device_payload [(''power'', PEnum Power n c), (''temperature'', PInt 23)] =
     [(''operation_status'', c), (''temperature'', PInt 23), (''airquality'', PBool False),
      (''nanoex'', PBool True), (''silence_control'', PBool False), (''timer_value'', PInt 0)]"
  by (simp add: set_device_payload_def update_conv' payload_item_def put_enum_def)

section \<open>Decoding: \_read\_parameters\<close>

lemma find_SomeD: "find P xs = Some x \<Longrightarrow> P x \<and> x \<in> set xs"
  by (induction xs) (auto split: if_splits)

lemma convert_step_keys:
  "fst ` set (case map_of kvs key of None \<Rightarrow> v | Some x \<Rightarrow> AList.update dkey x v) =
     fst ` set v \<union> {d. d = dkey \<and> key \<in> fst ` set kvs}"
proof (cases "map_of kvs key")
  case None
  then have "key \<notin> fst ` set kvs"
    by (simp add: map_of_eq_None_iff)
  with None show ?thesis by simp
next
  case (Some x)
  then have "key \<in> fst ` set kvs"
    by (metis map_of_eq_None_iff option.distinct(1))
  with Some show ?thesis by (simp add: dom_update)
qed

lemma convert_loop_step:
  "convert_loop (PDict kvs) (kd # tbl) v =
     convert_loop (PDict kvs) tbl
       (case map_of kvs (fst kd) of None \<Rightarrow> v | Some x \<Rightarrow> AList.update (snd kd) x v)"
  by (auto simp: and_then_def py_in_def py_getitem_def split: option.splits)

lemma convert_loop_dict:
  "convert_loop (PDict kvs) tbl v =
     Inr (fold (\<lambda>kd acc. case map_of kvs (fst kd) of None \<Rightarrow> acc | Some x \<Rightarrow> AList.update (snd kd) x acc) tbl v)"
proof (induction tbl arbitrary: v)
  case Nil
  show ?case by simp
next
  case (Cons kd tbl)
  show ?case
    by (simp only: convert_loop_step Cons.IH fold_simps)
qed

lemma convert_loop_keys:
  "convert_loop (PDict kvs) tbl v = Inr v' \<Longrightarrow>
     fst ` set v' = fst ` set v \<union> {d. \<exists>w. (w, d) \<in> set tbl \<and> w \<in> fst ` set kvs}"
proof (induction tbl arbitrary: v)
  case Nil
  then show ?case by simp
next
  case (Cons kd tbl)
  let ?v1 = "case map_of kvs (fst kd) of None \<Rightarrow> v | Some x \<Rightarrow> AList.update (snd kd) x v"
  from Cons.prems have "convert_loop (PDict kvs) tbl ?v1 = Inr v'"
    by (simp only: convert_loop_step)
  then have "fst ` set v' = fst ` set ?v1 \<union> {d. \<exists>w. (w, d) \<in> set tbl \<and> w \<in> fst ` set kvs}"
    by (rule Cons.IH)
  also have "fst ` set ?v1 = fst ` set v \<union> {d. d = snd kd \<and> fst kd \<in> fst ` set kvs}"
    by (rule convert_step_keys)
  finally have "fst ` set v' = fst ` set v \<union> {d. d = snd kd \<and> fst kd \<in> fst ` set kvs} \<union>
      {d. \<exists>w. (w, d) \<in> set tbl \<and> w \<in> fst ` set kvs}" .
  also have "\<dots> = fst ` set v \<union> {d. \<exists>w. (w, d) \<in> set (kd # tbl) \<and> w \<in> fst ` set kvs}"
    by (cases kd) (simp, blast)
  finally show ?case .
qed

lemma read_enum_dict:
  "read_enum C cls key dkey (PDict kvs) v =
     (case map_of kvs key of
        None \<Rightarrow> Inr v
      | Some x \<Rightarrow> (case enum_call C cls x of Inl e \<Rightarrow> Inl e | Inr m \<Rightarrow> Inr (AList.update dkey m v)))"
  by (auto simp: read_enum_def and_then_def py_in_def py_getitem_def split: option.splits sum.splits)

lemma read_enum_keys:
  assumes "read_enum C cls key dkey (PDict kvs) v = Inr v'"
  shows "fst ` set v' = fst ` set v \<union> {d. d = dkey \<and> key \<in> fst ` set kvs}"
proof (cases "map_of kvs key")
  case None
  then have "key \<notin> fst ` set kvs"
    by (simp add: map_of_eq_None_iff)
  with None assms show ?thesis by (simp add: read_enum_dict)
next
  case (Some x)
  then have "key \<in> fst ` set kvs"
    by (metis map_of_eq_None_iff option.distinct(1))
  moreover from Some assms obtain m where "v' = AList.update dkey m v"
    by (auto simp: read_enum_dict split: sum.splits)
  ultimately show ?thesis
    by (simp add: dom_update)
qed

lemma translation_member:
  "w \<in> K \<Longrightarrow> (w, d) \<in> set translation \<Longrightarrow>
     \<exists>w \<in> K \<inter> fst ` set translation. (w, d) \<in> set translation"
  by force

text \<open>
  Claim C4. For every wire document (a dictionary) that \<^verbatim>\<open>_read_parameters\<close> decodes,
  every domain key of the output is the translation of a wire key that the input holds:
  the output key set lies within the translation of the input key set intersected with
  the domain of the translation table. A wire key that is absent produces nothing.
\<close>

theorem read_parameters_no_default:
  assumes "read_parameters C (PDict kvs) = Inr out"
  shows "\<forall>d \<in> fst ` set out. \<exists>w \<in> fst ` set kvs \<inter> fst ` set translation. (w, d) \<in> set translation"
proof
  fix d
  assume d: "d \<in> fst ` set out"
  from assms obtain v0 v1 v2 v3 where
    s0: "convert_loop (PDict kvs) convert [] = Inr v0" and
    s1: "read_enum C Power ''operation_status'' ''power'' (PDict kvs) v0 = Inr v1" and
    s2: "read_enum C OperationMode ''operation_mode'' ''mode'' (PDict kvs) v1 = Inr v2" and
    s3: "read_enum C FanSpeed ''wind_volume'' ''fanSpeed'' (PDict kvs) v2 = Inr v3" and
    s4: "read_enum C AirSwingUD ''wind_direction'' ''airSwingVertical'' (PDict kvs) v3 = Inr out"
    by (auto simp: read_parameters_def and_then_def split: sum.splits)
  define K where "K = fst ` set kvs"
  have e0: "fst ` set v0 = {d. \<exists>w. (w, d) \<in> set convert \<and> w \<in> K}"
    using convert_loop_keys [OF s0] by (simp add: K_def)
  have e1: "fst ` set v1 = fst ` set v0 \<union> {d. d = ''power'' \<and> ''operation_status'' \<in> K}"
    unfolding K_def by (rule read_enum_keys [OF s1])
  have e2: "fst ` set v2 = fst ` set v1 \<union> {d. d = ''mode'' \<and> ''operation_mode'' \<in> K}"
    unfolding K_def by (rule read_enum_keys [OF s2])
  have e3: "fst ` set v3 = fst ` set v2 \<union> {d. d = ''fanSpeed'' \<and> ''wind_volume'' \<in> K}"
    unfolding K_def by (rule read_enum_keys [OF s3])
  have e4: "fst ` set out = fst ` set v3 \<union> {d. d = ''airSwingVertical'' \<and> ''wind_direction'' \<in> K}"
    unfolding K_def by (rule read_enum_keys [OF s4])
  from d have "d \<in> {d. \<exists>w. (w, d) \<in> set convert \<and> w \<in> K} \<union>
      {d. d = ''power'' \<and> ''operation_status'' \<in> K} \<union>
      {d. d = ''mode'' \<and> ''operation_mode'' \<in> K} \<union>
      {d. d = ''fanSpeed'' \<and> ''wind_volume'' \<in> K} \<union>
      {d. d = ''airSwingVertical'' \<and> ''wind_direction'' \<in> K}"
    by (simp only: e4 e3 e2 e1 e0)
  then consider
      (conv) w where "(w, d) \<in> set convert" "w \<in> fst ` set kvs"
    | (power) "d = ''power''" "''operation_status'' \<in> fst ` set kvs"
    | (mode) "d = ''mode''" "''operation_mode'' \<in> fst ` set kvs"
    | (fan) "d = ''fanSpeed''" "''wind_volume'' \<in> fst ` set kvs"
    | (swing) "d = ''airSwingVertical''" "''wind_direction'' \<in> fst ` set kvs"
    unfolding K_def [symmetric] by blast
  then show "\<exists>w \<in> fst ` set kvs \<inter> fst ` set translation. (w, d) \<in> set translation"
  proof cases
    case conv
    from conv(1) have "(w, d) \<in> set translation"
      by (auto simp: convert_def translation_def)
    with conv(2) show ?thesis by (rule translation_member)
  next
    case power
    have "(''operation_status'', d) \<in> set translation"
      using power(1) by (simp add: translation_def)
    with power(2) show ?thesis by (rule translation_member)
  next
    case mode
    have "(''operation_mode'', d) \<in> set translation"
      using mode(1) by (simp add: translation_def)
    with mode(2) show ?thesis by (rule translation_member)
  next
    case fan
    have "(''wind_volume'', d) \<in> set translation"
      using fan(1) by (simp add: translation_def)
    with fan(2) show ?thesis by (rule translation_member)
  next
    case swing
    have "(''wind_direction'', d) \<in> set translation"
      using swing(1) by (simp add: translation_def)
    with swing(2) show ?thesis by (rule translation_member)
  qed
qed


text \<open>
  A document with a temperature, a mode and a field outside the table: the output holds
  the temperature and the mode, nothing else.
\<close>

theorem read_parameters_no_default_witness:
  "read_parameters constants_example
     (PDict [(''temperature'', PInt 23), (''operation_mode'', PStr ''Cooling''), (''nanoex'', PBool True)]) =
     Inr [(''temperature'', PInt 23), (''mode'', PEnum OperationMode ''COOL'' (PStr ''Cooling''))] \<and>
   (\<exists>w \<in> fst ` set [(''temperature'', PInt 23), (''operation_mode'', PStr ''Cooling''), (''nanoex'', PBool True)]
           \<inter> fst ` set translation. (w, ''mode'') \<in> set translation)"
proof -
  have r: "read_parameters constants_example
     (PDict [(''temperature'', PInt 23), (''operation_mode'', PStr ''Cooling''), (''nanoex'', PBool True)]) =
     Inr [(''temperature'', PInt 23), (''mode'', PEnum OperationMode ''COOL'' (PStr ''Cooling''))]"
    by (simp add: read_parameters_def convert_def read_enum_def and_then_def py_in_def
        py_getitem_def enum_call_def isinstance_def constants_example_def py_eq_def)
  from read_parameters_no_default [OF r] r show ?thesis
    by simp
qed

lemma enum_settings_cases:
  assumes "(name, cls, wire) \<in> set enum_settings"
  obtains
      (power) "name = ''power''" "cls = Power" "wire = ''operation_status''"
    | (mode) "name = ''mode''" "cls = OperationMode" "wire = ''operation_mode''"
    | (fan) "name = ''fanSpeed''" "cls = FanSpeed" "wire = ''wind_volume''"
    | (swing) "name = ''airSwingVertical''" "cls = AirSwingUD" "wire = ''wind_direction''"
proof -
  from assms have
    "(name, cls, wire) = (''power'', Power, ''operation_status'') \<or>
     (name, cls, wire) = (''mode'', OperationMode, ''operation_mode'') \<or>
     (name, cls, wire) = (''fanSpeed'', FanSpeed, ''wind_volume'') \<or>
     (name, cls, wire) = (''airSwingVertical'', AirSwingUD, ''wind_direction'')"
    unfolding enum_settings_def by (simp only: set_simps insert_iff empty_iff simp_thms)
  then show thesis
    by (elim disjE) (simp_all only: prod.inject, (elim conjE, erule (2) that)+)
qed

lemma enum_call_cases:
  "(\<exists>m. enum_call C cls x = Inr m) \<or> enum_call C cls x = Inl (ValueError cls x)"
  by (auto simp: enum_call_def split: option.splits)

lemma enum_call_unknown:
  "\<not> isinstance x cls \<Longrightarrow> \<forall>m\<in>set (C cls). \<not> py_eq (snd m) x \<Longrightarrow>
     enum_call C cls x = Inl (ValueError cls x)"
  by (auto simp: enum_call_def split: option.splits dest!: find_SomeD)

lemma read_enum_result:
  "(\<exists>v'. read_enum C cls key dkey (PDict kvs) v = Inr v') \<or>
   (\<exists>c x. read_enum C cls key dkey (PDict kvs) v = Inl (ValueError c x))"
proof (cases "map_of kvs key")
  case None
  then show ?thesis by (simp add: read_enum_dict)
next
  case (Some x)
  with enum_call_cases [of C cls x] show ?thesis
    by (auto simp: read_enum_dict)
qed

lemma read_enum_unknown:
  "map_of kvs key = Some x \<Longrightarrow> \<not> isinstance x cls \<Longrightarrow> \<forall>m\<in>set (C cls). \<not> py_eq (snd m) x \<Longrightarrow>
     read_enum C cls key dkey (PDict kvs) v = Inl (ValueError cls x)"
  by (simp add: read_enum_dict enum_call_unknown)

lemma and_then_value_error:
  assumes "(\<exists>v'. m = Inr v') \<or> (\<exists>c x. m = Inl (ValueError c x))"
    and "\<And>v'. \<exists>c x. f v' = Inl (ValueError c x)"
  shows "\<exists>c x. and_then m f = Inl (ValueError c x)"
  using assms by (auto simp: and_then_def)

text \<open>
  Claim C6. A wire document with an enumeration-backed field (operation\_status,
  operation\_mode, wind\_volume or wind\_direction) whose value equals the code of no
  member of the field's enumeration makes \<^verbatim>\<open>_read_parameters\<close> fail with the
  enumeration's \<^verbatim>\<open>ValueError\<close>: no output is produced, so no fallback or default
  stands in for the value.
\<close>

theorem read_parameters_unknown_code:
  assumes e: "(name, cls, wire) \<in> set enum_settings"
    and x: "map_of kvs wire = Some x"
    and ni: "\<not> isinstance x cls"
    and un: "\<forall>m\<in>set (C cls). \<not> py_eq (snd m) x"
  shows "\<exists>c y. read_parameters C (PDict kvs) = Inl (ValueError c y)"
proof -
  let ?r1 = "read_enum C Power ''operation_status'' ''power'' (PDict kvs)"
  let ?r2 = "read_enum C OperationMode ''operation_mode'' ''mode'' (PDict kvs)"
  let ?r3 = "read_enum C FanSpeed ''wind_volume'' ''fanSpeed'' (PDict kvs)"
  let ?r4 = "read_enum C AirSwingUD ''wind_direction'' ''airSwingVertical'' (PDict kvs)"
  let ?t3 = "\<lambda>v. and_then (?r3 v) ?r4"
  let ?t2 = "\<lambda>v. and_then (?r2 v) ?t3"
  let ?t1 = "\<lambda>v. and_then (?r1 v) ?t2"
  obtain v0 where s0: "convert_loop (PDict kvs) convert [] = Inr v0"
    by (simp add: convert_loop_dict)
  have rp: "read_parameters C (PDict kvs) = ?t1 v0"
    by (simp add: read_parameters_def s0 and_then_def)
  from e have "\<exists>c y. ?t1 v0 = Inl (ValueError c y)"
  proof (cases rule: enum_settings_cases)
    case power
    with x ni un have "?r1 v0 = Inl (ValueError Power x)"
      by (simp add: read_enum_unknown)
    then show ?thesis by (simp add: and_then_def)
  next
    case mode
    with x ni un have "\<And>v. ?r2 v = Inl (ValueError OperationMode x)"
      by (simp add: read_enum_unknown)
    then have "\<And>v. \<exists>c y. ?t2 v = Inl (ValueError c y)"
      by (simp add: and_then_def)
    then show ?thesis
      by (rule and_then_value_error [OF read_enum_result])
  next
    case fan
    with x ni un have "\<And>v. ?r3 v = Inl (ValueError FanSpeed x)"
      by (simp add: read_enum_unknown)
    then have "\<And>v. \<exists>c y. ?t3 v = Inl (ValueError c y)"
      by (simp add: and_then_def)
    then have "\<And>v. \<exists>c y. ?t2 v = Inl (ValueError c y)"
      by (rule and_then_value_error [OF read_enum_result])
    then show ?thesis
      by (rule and_then_value_error [OF read_enum_result])
  next
    case swing
    with x ni un have "\<And>v. \<exists>c y. ?r4 v = Inl (ValueError c y)"
      by (simp add: read_enum_unknown)
    then have "\<And>v. \<exists>c y. ?t3 v = Inl (ValueError c y)"
      by (rule and_then_value_error [OF read_enum_result])
    then have "\<And>v. \<exists>c y. ?t2 v = Inl (ValueError c y)"
      by (rule and_then_value_error [OF read_enum_result])
    then show ?thesis
      by (rule and_then_value_error [OF read_enum_result])
  qed
  with rp show ?thesis by simp
qed

text \<open>The example of the specification, \<^verbatim>\<open>operation_mode: 999\<close>.\<close>

theorem read_parameters_unknown_code_witness:
  "(''mode'', OperationMode, ''operation_mode'') \<in> set enum_settings \<and>
   map_of [(''temperature'', PInt 23), (''operation_mode'', PInt 999)] ''operation_mode'' = Some (PInt 999) \<and>
   \<not> isinstance (PInt 999) OperationMode \<and>
   list_all (\<lambda>m. \<not> py_eq (snd m) (PInt 999)) (constants_example OperationMode) \<and>
   read_parameters constants_example (PDict [(''temperature'', PInt 23), (''operation_mode'', PInt 999)]) =
     Inl (ValueError OperationMode (PInt 999))"
proof -
  have e: "(''mode'', OperationMode, ''operation_mode'') \<in> set enum_settings"
    by (simp add: enum_settings_def)
  have x: "map_of [(''temperature'', PInt 23), (''operation_mode'', PInt 999)] ''operation_mode'' = Some (PInt 999)"
    by simp
  have ni: "\<not> isinstance (PInt 999) OperationMode"
    by (simp add: isinstance_def)
  have un: "\<forall>m\<in>set (constants_example OperationMode). \<not> py_eq (snd m) (PInt 999)"
    by (simp add: constants_example_def py_eq_def)
  have r: "read_parameters constants_example (PDict [(''temperature'', PInt 23), (''operation_mode'', PInt 999)]) =
     Inl (ValueError OperationMode (PInt 999))"
    by (simp add: read_parameters_def convert_def read_enum_def and_then_def py_in_def
        py_getitem_def enum_call_def isinstance_def constants_example_def py_eq_def)
  from read_parameters_unknown_code [where C = constants_example, OF e x ni un] e x ni un r show ?thesis
    by (simp add: list_all_iff)
qed

section \<open>The codec round trip\<close>

lemma find_member:
  "distinct (map (\<lambda>m. canon (snd m)) ms) \<Longrightarrow> m \<in> set ms \<Longrightarrow>
     find (\<lambda>m'. py_eq (snd m') (snd m)) ms = Some m"
  by (induction ms) (auto simp: py_eq_def rev_image_eqI)

lemma enum_call_member:
  assumes "enum_ok cls (C cls)" and "(n, c) \<in> set (C cls)"
  shows "enum_call C cls c = Inr (PEnum cls n c)"
proof -
  from assms have "\<not> isinstance c cls"
    by (auto simp: enum_ok_def list_all_iff)
  moreover from assms have "find (\<lambda>m'. py_eq (snd m') (snd (n, c))) (C cls) = Some (n, c)"
    by (intro find_member) (simp_all add: enum_ok_def)
  ultimately show ?thesis
    by (simp add: enum_call_def)
qed

text \<open>
  Claim C3. For each enumeration-backed setting and each member of its enumeration:
  \<^verbatim>\<open>set_device\<close> encodes the member as its wire code under the wire key, decoding the
  payload built from the member gives the member back under the setting's name, and
  decoding a known wire code gives the member whose encoding is that code.
\<close>

theorem codec_round_trip:
  assumes e: "(name, cls, wire) \<in> set enum_settings"
    and ok: "enum_ok cls (C cls)"
    and m: "(n, c) \<in> set (C cls)"
  shows "map_of (set_device_payload [(name, PEnum cls n c)]) wire = Some c \<and>
         read_parameters C (PDict (set_device_payload [(name, PEnum cls n c)])) = Inr [(name, PEnum cls n c)] \<and>
         read_parameters C (PDict [(wire, c)]) = Inr [(name, PEnum cls n c)]"
proof -
  note call = enum_call_member [where C = C, OF ok m]
  from e show ?thesis
  proof (cases rule: enum_settings_cases)
    case power
    with call show ?thesis
      by (simp add: set_device_payload_def payload_item_def put_enum_def read_parameters_def
          convert_def read_enum_def and_then_def py_in_def py_getitem_def)
  next
    case mode
    with call show ?thesis
      by (simp add: set_device_payload_def payload_item_def put_enum_def read_parameters_def
          convert_def read_enum_def and_then_def py_in_def py_getitem_def)
  next
    case fan
    with call show ?thesis
      by (simp add: set_device_payload_def payload_item_def put_enum_def read_parameters_def
          convert_def read_enum_def and_then_def py_in_def py_getitem_def)
  next
    case swing
    with call show ?thesis
      by (simp add: set_device_payload_def payload_item_def put_enum_def read_parameters_def
          convert_def read_enum_def and_then_def py_in_def py_getitem_def)
  qed
qed

text \<open>The fan speed \<^verbatim>\<open>Low\<close> of the example table, wire code 2.\<close>

theorem codec_round_trip_witness:
  "(''fanSpeed'', FanSpeed, ''wind_volume'') \<in> set enum_settings \<and>
   enum_ok FanSpeed (constants_example FanSpeed) \<and>
   (''Low'', PInt 2) \<in> set (constants_example FanSpeed) \<and>
   map_of (set_device_payload [(''fanSpeed'', PEnum FanSpeed ''Low'' (PInt 2))]) ''wind_volume'' = Some (PInt 2) \<and>
   read_parameters constants_example (PDict (set_device_payload [(''fanSpeed'', PEnum FanSpeed ''Low'' (PInt 2))])) =
     Inr [(''fanSpeed'', PEnum FanSpeed ''Low'' (PInt 2))] \<and>
   read_parameters constants_example (PDict [(''wind_volume'', PInt 2)]) =
     Inr [(''fanSpeed'', PEnum FanSpeed ''Low'' (PInt 2))]"
proof -
  have e: "(''fanSpeed'', FanSpeed, ''wind_volume'') \<in> set enum_settings"
    by (simp add: enum_settings_def)
  have ok: "enum_ok FanSpeed (constants_example FanSpeed)"
    by (simp add: enum_ok_def constants_example_def isinstance_def)
  have m: "(''Low'', PInt 2) \<in> set (constants_example FanSpeed)"
    by (simp add: constants_example_def)
  from codec_round_trip [where C = constants_example, OF e ok m] e ok m show ?thesis
    by simp
qed

section \<open>Status codes\<close>

text \<open>
  Claim C1, as amended. \<^verbatim>\<open>get_device\<close> and \<^verbatim>\<open>dump\<close> require the status code to be
  exactly 200; \<^verbatim>\<open>set_device\<close> tests \<^verbatim>\<open>2 != status_code // 100\<close> and accepts every
  code from 200 to 299. For a response whose body is a JSON document: with a status code
  other than 200, \<^verbatim>\<open>get_device\<close> and \<^verbatim>\<open>dump\<close> fail with a \<^verbatim>\<open>ResponseError\<close> that
  carries the status code; \<^verbatim>\<open>set_device\<close> fails so for a status code outside 200..299
  and returns \<^verbatim>\<open>True\<close> for one inside.
\<close>

theorem status_code_contract:
  assumes j: "loads (resp_text r) = Some j"
  shows "(send \<lparr>meth = GET, url = StatusUrl dev, json = None\<rparr> = Answered r \<and> status_code r \<noteq> 200 \<longrightarrow>
            get_device C loads send dev =
              Inl (ResponseError (''Invalid response, status code: '' @ str_int (status_code r) @ '' - Data: '' @ resp_text r)
                     (status_code r) j) \<and>
            dump loads send dev =
              Inl (ResponseError (''Invalid response, status code: '' @ str_int (status_code r) @ '' - Data: '' @ resp_text r)
                     (status_code r) j)) \<and>
         (send \<lparr>meth = PUT, url = StatusUrl dev, json = Some (PDict (set_device_payload kwargs))\<rparr> = Answered r \<and>
            status_code r div 100 \<noteq> 2 \<longrightarrow>
            set_device loads send dev kwargs =
              Inl (ResponseError (''Invalid response, status code: '' @ str_int (status_code r) @ '' - Data: '' @ resp_text r)
                     (status_code r) j)) \<and>
         (send \<lparr>meth = PUT, url = StatusUrl dev, json = Some (PDict (set_device_payload kwargs))\<rparr> = Answered r \<and>
            status_code r div 100 = 2 \<longrightarrow>
            set_device loads send dev kwargs = Inr (PBool True))"
proof (intro conjI impI)
  assume "send \<lparr>meth = GET, url = StatusUrl dev, json = None\<rparr> = Answered r \<and> status_code r \<noteq> 200"
  then show "get_device C loads send dev =
      Inl (ResponseError (''Invalid response, status code: '' @ str_int (status_code r) @ '' - Data: '' @ resp_text r)
             (status_code r) j)"
    by (simp add: get_device_def raise_ResponseError_def j)
next
  assume "send \<lparr>meth = GET, url = StatusUrl dev, json = None\<rparr> = Answered r \<and> status_code r \<noteq> 200"
  then show "dump loads send dev =
      Inl (ResponseError (''Invalid response, status code: '' @ str_int (status_code r) @ '' - Data: '' @ resp_text r)
             (status_code r) j)"
    by (simp add: dump_def raise_ResponseError_def j)
next
  assume "send \<lparr>meth = PUT, url = StatusUrl dev, json = Some (PDict (set_device_payload kwargs))\<rparr> = Answered r \<and>
      status_code r div 100 \<noteq> 2"
  then show "set_device loads send dev kwargs =
      Inl (ResponseError (''Invalid response, status code: '' @ str_int (status_code r) @ '' - Data: '' @ resp_text r)
             (status_code r) j)"
    by (simp add: set_device_def raise_ResponseError_def j)
next
  assume "send \<lparr>meth = PUT, url = StatusUrl dev, json = Some (PDict (set_device_payload kwargs))\<rparr> = Answered r \<and>
      status_code r div 100 = 2"
  then show "set_device loads send dev kwargs = Inr (PBool True)"
    by (simp add: set_device_def validate_response_def and_then_def j)
qed

text \<open>
  Status 201 with the body \<^verbatim>\<open>{}\<close>: \<^verbatim>\<open>get_device\<close> and \<^verbatim>\<open>dump\<close> fail,
  \<^verbatim>\<open>set_device\<close> succeeds. The parser of the example is \<^verbatim>\<open>json.loads\<close> on the one
  document it lists.
\<close>

theorem status_code_contract_witness:
  "map_of [(''{}'', PDict [])] (resp_text \<lparr>status_code = 201, resp_text = ''{}''\<rparr>) = Some (PDict []) \<and>
   get_device constants_example (map_of [(''{}'', PDict [])])
       (always (Answered \<lparr>status_code = 201, resp_text = ''{}''\<rparr>)) (PStr ''ac-1'') =
     Inl (ResponseError ''Invalid response, status code: 201 - Data: {}'' 201 (PDict [])) \<and>
   dump (map_of [(''{}'', PDict [])])
       (always (Answered \<lparr>status_code = 201, resp_text = ''{}''\<rparr>)) (PStr ''ac-1'') =
     Inl (ResponseError ''Invalid response, status code: 201 - Data: {}'' 201 (PDict [])) \<and>
   set_device (map_of [(''{}'', PDict [])])
       (always (Answered \<lparr>status_code = 201, resp_text = ''{}''\<rparr>)) (PStr ''ac-1'') [] = Inr (PBool True)"
proof -
  have j: "map_of [(''{}'', PDict [])] (resp_text \<lparr>status_code = 201, resp_text = ''{}''\<rparr>) = Some (PDict [])"
    by simp
  from status_code_contract [where loads = "map_of [(''{}'', PDict [])]"
      and r = "\<lparr>status_code = 201, resp_text = ''{}''\<rparr>"
      and send = "always (Answered \<lparr>status_code = 201, resp_text = ''{}''\<rparr>)"
      and dev = "PStr ''ac-1''" and C = constants_example and kwargs = "[]", OF j] j
  show ?thesis
    by (simp add: always_def str_int_def str_nat.simps)
qed

text \<open>
  Claim C1 as stated fails for \<^verbatim>\<open>set_device\<close>: a response with status 201 is not an
  error there.
\<close>

theorem set_device_accepts_201_counterexample:
  "set_device (map_of [(''{}'', PDict [])]) (always (Answered \<lparr>status_code = 201, resp_text = ''{}''\<rparr>))
     (PStr ''ac-1'') [] = Inr (PBool True)"
  by (simp add: set_device_def always_def validate_response_def and_then_def)

section \<open>Failures\<close>

text \<open>
  Claim C7 does not hold of the code. \<^verbatim>\<open>ResponseError.__init__\<close> calls
  \<^verbatim>\<open>json.loads(text)\<close> with no handler, so for a response body that is not a JSON
  document the constructor itself raises \<^verbatim>\<open>JSONDecodeError\<close>: with a status code
  outside the accepted range, every operation then ends with that error and the caller
  receives no \<^verbatim>\<open>ResponseError\<close> and no status code.
\<close>

theorem response_error_needs_json_body:
  assumes n: "loads (resp_text r) = None"
  shows "raise_ResponseError loads (status_code r) (resp_text r) = JSONDecodeError (resp_text r) \<and>
         (send \<lparr>meth = GET, url = StatusUrl dev, json = None\<rparr> = Answered r \<and> status_code r \<noteq> 200 \<longrightarrow>
            get_device C loads send dev = Inl (JSONDecodeError (resp_text r)) \<and>
            dump loads send dev = Inl (JSONDecodeError (resp_text r))) \<and>
         (send \<lparr>meth = PUT, url = StatusUrl dev, json = Some (PDict (set_device_payload kwargs))\<rparr> = Answered r \<and>
            status_code r div 100 \<noteq> 2 \<longrightarrow>
            set_device loads send dev kwargs = Inl (JSONDecodeError (resp_text r))) \<and>
         (send \<lparr>meth = GET, url = GetDevicesUrl, json = None\<rparr> = Answered r \<and>
            status_code r div 100 \<noteq> 2 \<longrightarrow>
            snd (get_devices loads send s) = Inl (JSONDecodeError (resp_text r)))"
  using n
  by (simp add: raise_ResponseError_def get_device_def dump_def set_device_def get_devices_def Let_def)

text \<open>A gateway answers 502 with an HTML page.\<close>

theorem response_error_needs_json_body_witness:
  "map_of [(''{}'', PDict [])] (resp_text \<lparr>status_code = 502, resp_text = ''<html>Bad Gateway</html>''\<rparr>) = None \<and>
   raise_ResponseError (map_of [(''{}'', PDict [])]) 502 ''<html>Bad Gateway</html>'' =
     JSONDecodeError ''<html>Bad Gateway</html>'' \<and>
   get_device constants_example (map_of [(''{}'', PDict [])])
       (always (Answered \<lparr>status_code = 502, resp_text = ''<html>Bad Gateway</html>''\<rparr>)) (PStr ''ac-1'') =
     Inl (JSONDecodeError ''<html>Bad Gateway</html>'')"
proof -
  have n: "map_of [(''{}'', PDict [])] (resp_text \<lparr>status_code = 502, resp_text = ''<html>Bad Gateway</html>''\<rparr>) = None"
    by simp
  from response_error_needs_json_body [where loads = "map_of [(''{}'', PDict [])]"
      and r = "\<lparr>status_code = 502, resp_text = ''<html>Bad Gateway</html>''\<rparr>"
      and send = "always (Answered \<lparr>status_code = 502, resp_text = ''<html>Bad Gateway</html>''\<rparr>)"
      and dev = "PStr ''ac-1''" and C = constants_example, OF n] n
  show ?thesis
    by (simp add: always_def)
qed

text \<open>
  Claim C8. A \<^verbatim>\<open>RequestException\<close> of the transport becomes a \<^verbatim>\<open>LoginError\<close> in
  \<^verbatim>\<open>login\<close>, an \<^verbatim>\<open>Error\<close> in \<^verbatim>\<open>get_devices\<close> and a \<^verbatim>\<open>RequestError\<close> in
  \<^verbatim>\<open>get_device\<close>, \<^verbatim>\<open>dump\<close> and \<^verbatim>\<open>set_device\<close>, each wrapping the cause. A status
  outside 200..299 during \<^verbatim>\<open>login\<close> is never a \<^verbatim>\<open>LoginError\<close>: it is a
  \<^verbatim>\<open>ResponseError\<close> when the body is a JSON document, and the \<^verbatim>\<open>JSONDecodeError\<close> of
  the constructor of \<^verbatim>\<open>ResponseError\<close> when it is not, which is where the code departs
  from the claim.
\<close>

theorem failure_classification:
  "(send \<lparr>meth = POST, url = LoginUrl, json = Some (login_payload s)\<rparr> = Raises (RequestException n) \<longrightarrow>
      login loads send s = Inl (LoginError (RequestException n))) \<and>
   (send \<lparr>meth = GET, url = GetDevicesUrl, json = None\<rparr> = Raises (RequestException n) \<longrightarrow>
      snd (get_devices loads send s) = Inl (Error (RequestException n))) \<and>
   (send \<lparr>meth = GET, url = StatusUrl dev, json = None\<rparr> = Raises (RequestException n) \<longrightarrow>
      get_device C loads send dev = Inl (RequestError (RequestException n)) \<and>
      dump loads send dev = Inl (RequestError (RequestException n))) \<and>
   (send \<lparr>meth = PUT, url = StatusUrl dev, json = Some (PDict (set_device_payload kwargs))\<rparr> =
        Raises (RequestException n) \<longrightarrow>
      set_device loads send dev kwargs = Inl (RequestError (RequestException n))) \<and>
   (send \<lparr>meth = POST, url = LoginUrl, json = Some (login_payload s)\<rparr> = Answered r \<and>
      status_code r div 100 \<noteq> 2 \<longrightarrow>
      login loads send s =
        (case loads (resp_text r) of
           Some j \<Rightarrow>
             Inl (ResponseError (''Invalid response, status code: '' @ str_int (status_code r) @ '' - Data: '' @ resp_text r)
                    (status_code r) j)
         | None \<Rightarrow> Inl (JSONDecodeError (resp_text r))))"
  by (simp add: login_def get_devices_def get_device_def dump_def set_device_def wrap_exn_def
      raise_ResponseError_def Let_def split: option.splits)

text \<open>A timeout during login, and a login answered 502 with an HTML page.\<close>

theorem failure_classification_witness:
  "login (map_of [(''{}'', PDict [])]) (always (Raises (RequestException ''ConnectTimeout'')))
       \<lparr>username = ''u'', password = ''p'', devices = PNone\<rparr> =
     Inl (LoginError (RequestException ''ConnectTimeout'')) \<and>
   login (map_of [(''{}'', PDict [])])
       (always (Answered \<lparr>status_code = 502, resp_text = ''<html>Bad Gateway</html>''\<rparr>))
       \<lparr>username = ''u'', password = ''p'', devices = PNone\<rparr> =
     Inl (JSONDecodeError ''<html>Bad Gateway</html>'')"
  using
    failure_classification [where send = "always (Raises (RequestException ''ConnectTimeout''))"
      and n = "''ConnectTimeout''" and loads = "map_of [(''{}'', PDict [])]"
      and s = "\<lparr>username = ''u'', password = ''p'', devices = PNone\<rparr>"]
    failure_classification [where send = "always (Answered \<lparr>status_code = 502, resp_text = ''<html>Bad Gateway</html>''\<rparr>)"
      and r = "\<lparr>status_code = 502, resp_text = ''<html>Bad Gateway</html>''\<rparr>"
      and loads = "map_of [(''{}'', PDict [])]"
      and s = "\<lparr>username = ''u'', password = ''p'', devices = PNone\<rparr>"]
  by (simp add: always_def)

text \<open>
  Claim C10. \<^verbatim>\<open>get_devices\<close> assigns the empty list to \<^verbatim>\<open>self._devices\<close> before the
  network call. When it fails by a transport failure, by a status outside 200..299 or
  by a response document without \<^verbatim>\<open>ac_list\<close>, the session is left with the empty list
  in place of the list it held; and in every run the outcome is the same whatever list
  was cached before.
\<close>

theorem get_devices_resets_cache:
  assumes "send \<lparr>meth = GET, url = GetDevicesUrl, json = None\<rparr> = Raises ex \<or>
           (send \<lparr>meth = GET, url = GetDevicesUrl, json = None\<rparr> = Answered r \<and> status_code r div 100 \<noteq> 2) \<or>
           (send \<lparr>meth = GET, url = GetDevicesUrl, json = None\<rparr> = Answered r \<and> status_code r div 100 = 2 \<and>
              loads (resp_text r) = Some (PDict doc) \<and> map_of doc ''ac_list'' = None)"
  shows "(\<exists>e. get_devices loads send s = (s\<lparr>devices := PList []\<rparr>, Inl e)) \<and>
         get_devices loads send (s\<lparr>devices := cached\<rparr>) = get_devices loads send s"
proof
  from assms show "\<exists>e. get_devices loads send s = (s\<lparr>devices := PList []\<rparr>, Inl e)"
    by (auto simp: get_devices_def Let_def validate_response_def py_getitem_def)
next
  show "get_devices loads send (s\<lparr>devices := cached\<rparr>) = get_devices loads send s"
    by (simp add: get_devices_def)
qed

text \<open>
  A session that holds a list: a timeout, and a response 200 whose document has no
  \<^verbatim>\<open>ac_list\<close>.
\<close>

theorem get_devices_resets_cache_witness:
  "get_devices (map_of [(''{}'', PDict [])]) (always (Raises (RequestException ''ConnectTimeout'')))
       \<lparr>username = ''u'', password = ''p'', devices = PList [PDict [(''id'', PStr ''old'')]]\<rparr> =
     (\<lparr>username = ''u'', password = ''p'', devices = PList []\<rparr>, Inl (Error (RequestException ''ConnectTimeout''))) \<and>
   get_devices (map_of [(''{}'', PDict [])]) (always (Answered \<lparr>status_code = 200, resp_text = ''{}''\<rparr>))
       \<lparr>username = ''u'', password = ''p'', devices = PList [PDict [(''id'', PStr ''old'')]]\<rparr> =
     (\<lparr>username = ''u'', password = ''p'', devices = PList []\<rparr>, Inl (KeyError ''ac_list''))"
proof -
  let ?s = "\<lparr>username = ''u'', password = ''p'', devices = PList [PDict [(''id'', PStr ''old'')]]\<rparr>"
  let ?loads = "map_of [(''{}'', PDict [])]"
  let ?r = "\<lparr>status_code = 200, resp_text = ''{}''\<rparr>"
  have a: "(\<exists>e. get_devices ?loads (always (Raises (RequestException ''ConnectTimeout''))) ?s =
      (?s\<lparr>devices := PList []\<rparr>, Inl e)) \<and>
      get_devices ?loads (always (Raises (RequestException ''ConnectTimeout''))) (?s\<lparr>devices := PNone\<rparr>) =
      get_devices ?loads (always (Raises (RequestException ''ConnectTimeout''))) ?s"
    by (rule get_devices_resets_cache [where send = "always (Raises (RequestException ''ConnectTimeout''))"
          and ex = "RequestException ''ConnectTimeout''" and r = ?r and doc = "[]" and cached = PNone])
       (simp add: always_def)
  have b: "(\<exists>e. get_devices ?loads (always (Answered ?r)) ?s = (?s\<lparr>devices := PList []\<rparr>, Inl e)) \<and>
      get_devices ?loads (always (Answered ?r)) (?s\<lparr>devices := PNone\<rparr>) =
      get_devices ?loads (always (Answered ?r)) ?s"
    by (rule get_devices_resets_cache [where send = "always (Answered ?r)"
          and ex = "RequestException ''ConnectTimeout''" and r = ?r and doc = "[]" and cached = PNone])
       (simp add: always_def)
  from a b show ?thesis
    by (auto simp: get_devices_def Let_def always_def wrap_exn_def validate_response_def py_getitem_def)
qed

section \<open>The device list\<close>

lemma device_summary_Inr:
  "device_summary entry = Inr summary \<longleftrightarrow>
     (\<exists>a n m. py_getitem entry ''appliance_id'' = Inr a \<and> py_getitem entry ''nickname'' = Inr n \<and>
        py_getitem entry ''product_code'' = Inr m \<and>
        summary = PDict [(''id'', a), (''name'', n), (''model'', m)])"
  by (auto simp: device_summary_def and_then_def split: sum.splits)

lemma get_devices_loop_Inr:
  "get_devices_loop s entries = (s', Inr ds) \<Longrightarrow> devices s = PList acc \<Longrightarrow>
     \<exists>summaries. ds = PList (acc @ summaries) \<and> devices s' = PList (acc @ summaries) \<and>
       list_all2 (\<lambda>entry summary. device_summary entry = Inr summary) entries summaries"
proof (induction entries arbitrary: s acc)
  case Nil
  then show ?case by simp
next
  case (Cons entry entries)
  from Cons.prems obtain d where d: "device_summary entry = Inr d"
    and loop: "get_devices_loop (s\<lparr>devices := PList (acc @ [d])\<rparr>) entries = (s', Inr ds)"
    by (auto simp: py_append_def split: sum.splits)
  from Cons.IH [OF loop, of "acc @ [d]"] obtain summaries where
    "ds = PList ((acc @ [d]) @ summaries)" "devices s' = PList ((acc @ [d]) @ summaries)"
    "list_all2 (\<lambda>entry summary. device_summary entry = Inr summary) entries summaries"
    by auto
  with d have "ds = PList (acc @ d # summaries) \<and> devices s' = PList (acc @ d # summaries) \<and>
      list_all2 (\<lambda>entry summary. device_summary entry = Inr summary) (entry # entries) (d # summaries)"
    by simp
  then show ?case by blast
qed

text \<open>
  Claim C9. When \<^verbatim>\<open>get_devices\<close> returns, the response document has an \<^verbatim>\<open>ac_list\<close>
  field, and the list returned (which is also the list the session now holds) has one
  summary per entry of that field, in the order of the entries; the \<^verbatim>\<open>id\<close>,
  \<^verbatim>\<open>name\<close> and \<^verbatim>\<open>model\<close> of a summary are the entry's \<^verbatim>\<open>appliance_id\<close>,
  \<^verbatim>\<open>nickname\<close> and \<^verbatim>\<open>product_code\<close>, unchanged.
\<close>

theorem get_devices_summaries:
  assumes "get_devices loads send s = (s', Inr ds)"
  shows "\<exists>r doc acl entries summaries.
           send \<lparr>meth = GET, url = GetDevicesUrl, json = None\<rparr> = Answered r \<and>
           loads (resp_text r) = Some doc \<and>
           py_getitem doc ''ac_list'' = Inr acl \<and>
           py_iter acl = Inr entries \<and>
           ds = PList summaries \<and> devices s' = PList summaries \<and>
           list_all2 (\<lambda>entry summary.
               \<exists>a n m. py_getitem entry ''appliance_id'' = Inr a \<and> py_getitem entry ''nickname'' = Inr n \<and>
                 py_getitem entry ''product_code'' = Inr m \<and>
                 summary = PDict [(''id'', a), (''name'', n), (''model'', m)])
             entries summaries"
proof -
  from assms obtain r doc acl entries where
    r: "send \<lparr>meth = GET, url = GetDevicesUrl, json = None\<rparr> = Answered r" and
    doc: "loads (resp_text r) = Some doc" and
    acl: "py_getitem doc ''ac_list'' = Inr acl" and
    entries: "py_iter acl = Inr entries" and
    loop: "get_devices_loop (s\<lparr>devices := PList []\<rparr>) entries = (s', Inr ds)"
    by (auto simp: get_devices_def Let_def split: outcome.splits if_splits sum.splits option.splits)
  from get_devices_loop_Inr [OF loop, of "[]"] obtain summaries where
    "ds = PList summaries" "devices s' = PList summaries"
    "list_all2 (\<lambda>entry summary. device_summary entry = Inr summary) entries summaries"
    by auto
  with r doc acl entries show ?thesis
    unfolding device_summary_Inr by blast
qed

text \<open>A response with two devices, the second with a field that no summary takes.\<close>

theorem get_devices_summaries_witness:
  \<open>get_devices
     (map_of [(''{"ac_list": [{"appliance_id": "a1", "nickname": "Living", "product_code": "CS-X"}, {"appliance_id": "b2", "nickname": "Bed", "product_code": "CS-Y", "area": 1}]}'',
        PDict [(''ac_list'', PList [
          PDict [(''appliance_id'', PStr ''a1''), (''nickname'', PStr ''Living''), (''product_code'', PStr ''CS-X'')],
          PDict [(''appliance_id'', PStr ''b2''), (''nickname'', PStr ''Bed''), (''product_code'', PStr ''CS-Y''), (''area'', PInt 1)]])])])
     (always (Answered \<lparr>status_code = 200, resp_text = ''{"ac_list": [{"appliance_id": "a1", "nickname": "Living", "product_code": "CS-X"}, {"appliance_id": "b2", "nickname": "Bed", "product_code": "CS-Y", "area": 1}]}''\<rparr>))
     \<lparr>username = ''u'', password = ''p'', devices = PNone\<rparr> =
   (\<lparr>username = ''u'', password = ''p'', devices = PList [
        PDict [(''id'', PStr ''a1''), (''name'', PStr ''Living''), (''model'', PStr ''CS-X'')],
        PDict [(''id'', PStr ''b2''), (''name'', PStr ''Bed''), (''model'', PStr ''CS-Y'')]]\<rparr>,
    Inr (PList [
        PDict [(''id'', PStr ''a1''), (''name'', PStr ''Living''), (''model'', PStr ''CS-X'')],
        PDict [(''id'', PStr ''b2''), (''name'', PStr ''Bed''), (''model'', PStr ''CS-Y'')]])) \<and>
   (\<exists>entries. list_all2 (\<lambda>entry summary.
               \<exists>a n m. py_getitem entry ''appliance_id'' = Inr a \<and> py_getitem entry ''nickname'' = Inr n \<and>
                 py_getitem entry ''product_code'' = Inr m \<and>
                 summary = PDict [(''id'', a), (''name'', n), (''model'', m)])
             entries
             [PDict [(''id'', PStr ''a1''), (''name'', PStr ''Living''), (''model'', PStr ''CS-X'')],
              PDict [(''id'', PStr ''b2''), (''name'', PStr ''Bed''), (''model'', PStr ''CS-Y'')]])\<close>
proof -
  let ?body = \<open>''{"ac_list": [{"appliance_id": "a1", "nickname": "Living", "product_code": "CS-X"}, {"appliance_id": "b2", "nickname": "Bed", "product_code": "CS-Y", "area": 1}]}''\<close>
  let ?loads = "map_of [(?body,
        PDict [(''ac_list'', PList [
          PDict [(''appliance_id'', PStr ''a1''), (''nickname'', PStr ''Living''), (''product_code'', PStr ''CS-X'')],
          PDict [(''appliance_id'', PStr ''b2''), (''nickname'', PStr ''Bed''), (''product_code'', PStr ''CS-Y''), (''area'', PInt 1)]])])]"
  let ?send = "always (Answered \<lparr>status_code = 200, resp_text = ?body\<rparr>)"
  let ?ds = "[PDict [(''id'', PStr ''a1''), (''name'', PStr ''Living''), (''model'', PStr ''CS-X'')],
              PDict [(''id'', PStr ''b2''), (''name'', PStr ''Bed''), (''model'', PStr ''CS-Y'')]]"
  have e: "get_devices ?loads ?send \<lparr>username = ''u'', password = ''p'', devices = PNone\<rparr> =
      (\<lparr>username = ''u'', password = ''p'', devices = PList ?ds\<rparr>, Inr (PList ?ds))"
    by (simp add: get_devices_def Let_def always_def validate_response_def py_getitem_def py_iter_def
        device_summary_def and_then_def py_append_def)
  from get_devices_summaries [where loads = ?loads and send = ?send, OF e]
  obtain entries summaries where "PList ?ds = PList summaries" and
    "list_all2 (\<lambda>entry summary.
               \<exists>a n m. py_getitem entry ''appliance_id'' = Inr a \<and> py_getitem entry ''nickname'' = Inr n \<and>
                 py_getitem entry ''product_code'' = Inr m \<and>
                 summary = PDict [(''id'', a), (''name'', n), (''model'', m)])
             entries summaries"
    by blast
  then have "\<exists>entries. list_all2 (\<lambda>entry summary.
               \<exists>a n m. py_getitem entry ''appliance_id'' = Inr a \<and> py_getitem entry ''nickname'' = Inr n \<and>
                 py_getitem entry ''product_code'' = Inr m \<and>
                 summary = PDict [(''id'', a), (''name'', n), (''model'', m)])
             entries ?ds"
    by (simp only: pyval.inject) blast
  with e show ?thesis
    by (rule conjI)
qed

end
